theory Spec2Isabelle
  imports Complex_Main "HOL-Library.Char_ord" "HOL-Library.List_Lexorder"
begin

section \<open>Brand consistency checker: text primitives\<close>

text \<open>
  The development embeds \<^verbatim>\<open>on_brand_crew/tools/brand_checker.py\<close> and
  \<^verbatim>\<open>on_brand_crew/models.py\<close>.

  A Python \<^verbatim>\<open>str\<close> is modelled as a \<^typ>\<open>string\<close> whose characters are the
  code points 0 to 255. On that range \<^verbatim>\<open>str.isspace\<close>, the pattern \<^verbatim>\<open>\s\<close>,
  \<^verbatim>\<open>str.lower\<close> and the pattern \<^verbatim>\<open>\d\<close> are the functions below.
  A Python \<^verbatim>\<open>float\<close> obtained by dividing two lengths is modelled as the exact
  rational; the literals \<^verbatim>\<open>0.3\<close> and \<^verbatim>\<open>0.5\<close> are \<open>3/10\<close> and \<open>1/2\<close>.
\<close>

datatype py_error = IndexError | KeyError | ZeroDivisionError

definition py_first :: "'a list \<Rightarrow> py_error + 'a" where
  \<comment> \<open>\<^verbatim>\<open>xs[0]\<close>\<close>
  "py_first xs = (case xs of [] \<Rightarrow> Inl IndexError | x # _ \<Rightarrow> Inr x)"

definition py_truediv :: "nat \<Rightarrow> nat \<Rightarrow> py_error + rat" where
  \<comment> \<open>\<^verbatim>\<open>a / b\<close> on two non-negative integers\<close>
  "py_truediv a b = (if b = 0 then Inl ZeroDivisionError else Inr (of_nat a / of_nat b))"

definition bind_err :: "py_error + 'a \<Rightarrow> ('a \<Rightarrow> py_error + 'b) \<Rightarrow> py_error + 'b" where
  \<comment> \<open>sequencing: an exception raised by the first step leaves the function\<close>
  "bind_err m f = (case m of Inl e \<Rightarrow> Inl e | Inr x \<Rightarrow> f x)"

definition isspace :: "char \<Rightarrow> bool" where
  "isspace c = ((of_char c :: nat) \<in> {9, 10, 11, 12, 13, 28, 29, 30, 31, 32, 133, 160})"

definition lower_char :: "char \<Rightarrow> char" where
  "lower_char c =
     (let n = (of_char c :: nat)
      in if (65 \<le> n \<and> n \<le> 90) \<or> (192 \<le> n \<and> n \<le> 222 \<and> n \<noteq> 215)
         then char_of (n + 32) else c)"

definition lower :: "string \<Rightarrow> string" where
  "lower s = map lower_char s"

definition strip :: "string \<Rightarrow> string" where
  "strip s = rev (dropWhile isspace (rev (dropWhile isspace s)))"

text \<open>\<^verbatim>\<open>re.sub(r'\s+', ' ', s)\<close>: every maximal run of whitespace becomes one space.\<close>

function collapse_ws :: "string \<Rightarrow> string" where
  "collapse_ws [] = []"
| "collapse_ws (c # cs) =
     (if isspace c then CHR '' '' # collapse_ws (dropWhile isspace cs)
      else c # collapse_ws cs)"
  by pat_completeness auto
termination
  by (relation "measure length") (auto simp: length_dropWhile_le less_Suc_eq_le)

definition normalize_text :: "string \<Rightarrow> string" where
  "normalize_text s = collapse_ws (strip (lower s))"

fun startswith :: "string \<Rightarrow> string \<Rightarrow> bool" where
  "startswith _ [] = True"
| "startswith [] (p # ps) = False"
| "startswith (c # cs) (p # ps) = (c = p \<and> startswith cs ps)"

text \<open>\<^verbatim>\<open>needle in hay\<close> on strings.\<close>

fun str_in :: "string \<Rightarrow> string \<Rightarrow> bool" where
  "str_in needle [] = (needle = [])"
| "str_in needle (c # cs) = (startswith (c # cs) needle \<or> str_in needle cs)"

definition contains_phrase :: "string \<Rightarrow> string \<Rightarrow> bool" where
  "contains_phrase content phrase = str_in (normalize_text phrase) (normalize_text content)"

definition is_sep :: "char \<Rightarrow> bool" where
  \<comment> \<open>the character class of \<^verbatim>\<open>tokenize\<close>: whitespace and \<^verbatim>\<open>. , ! ? ; : ' " ( ) [ ] { }\<close>\<close>
  "is_sep c = (isspace c \<or> c \<in> set ''.,!?;:()[]{}'' \<or> c = CHR 0x27 \<or> c = CHR 0x22)"

text \<open>
  \<^verbatim>\<open>re.split\<close> on one or more separators: the pieces between the maximal runs of
  separators, the empty pieces at both ends included. The first argument is the piece
  being read.
\<close>

function re_split :: "string \<Rightarrow> string \<Rightarrow> string list" where
  "re_split cur [] = [cur]"
| "re_split cur (c # cs) =
     (if is_sep c then cur # re_split [] (dropWhile is_sep cs)
      else re_split (cur @ [c]) cs)"
  by pat_completeness auto
termination
  by (relation "measure (\<lambda>(cur, s). length s)") (auto simp: length_dropWhile_le less_Suc_eq_le)

definition tokenize :: "string \<Rightarrow> string set" where
  "tokenize s = set (filter (\<lambda>w. w \<noteq> []) (re_split [] (normalize_text s)))"

definition calculate_word_overlap :: "string \<Rightarrow> string \<Rightarrow> py_error + rat" where
  "calculate_word_overlap text1 text2 =
     (let words1 = tokenize text1; words2 = tokenize text2
      in if words1 = {} \<or> words2 = {} then Inr 0
         else let intersection = card (words1 \<inter> words2);
                  union = card (words1 \<union> words2)
              in if union > 0 then py_truediv intersection union else Inr 0)"

section \<open>Data model\<close>

datatype BrandAlignmentStatus = ON_BRAND | BORDERLINE | OFF_BRAND

datatype example_type = Good | Bad

record BrandExample =
  ex_content :: string
  ex_type :: example_type
  ex_note :: "string option"

record BrandProfile =
  name :: string
  version :: string
  brand_values :: "string list"
  voice_descriptors :: "string list"
  tone_acceptable :: "string list"
  tone_unacceptable :: "string list"
  never_rules :: "string list"
  examples :: "BrandExample list"
  description :: "string option"
  created_at :: "string option"
  updated_at :: "string option"




datatype ExplanationSeverity = INFO | WARNING | CRITICAL

datatype ExplanationAspect = VALUE | VOICE | TONE | NEVER_RULE | EXAMPLE_MATCH

record Explanation =
  text_of :: string
  aspect :: "ExplanationAspect option"
  severity :: ExplanationSeverity

text \<open>The three local variables that the stages of \<^verbatim>\<open>BrandCheckerTool._run\<close> update.\<close>

record eval_state =
  status :: BrandAlignmentStatus
  confidence :: int
  explanations :: "Explanation list"

record details =
  neverRuleViolations :: "string list"
  unacceptableToneFound :: "string list"
  valueAlignmentScore :: rat
  voiceAlignmentScore :: rat
  exampleSimilarity_good :: rat
  exampleSimilarity_bad :: rat

record BrandCheckResponse =
  r_status :: BrandAlignmentStatus
  statusDisplay :: "nat list"
  r_explanations :: "Explanation list"
  r_confidence :: int
  profileVersion :: string
  checkedAt :: string
  contentHash :: string
  r_details :: details

section \<open>The tools\<close>

definition quoted :: "string \<Rightarrow> string" where
  "quoted s = [CHR 0x22] @ s @ [CHR 0x22]"

fun join :: "string \<Rightarrow> string list \<Rightarrow> string" where
  "join sep [] = []"
| "join sep [x] = x"
| "join sep (x # y # ys) = x @ sep @ join sep (y # ys)"

definition py_int :: "rat \<Rightarrow> int" where
  \<comment> \<open>\<^verbatim>\<open>int(x)\<close> truncates towards zero\<close>
  "py_int x = (if 0 \<le> x then \<lfloor>x\<rfloor> else \<lceil>x\<rceil>)"





section \<open>The stages of \<^verbatim>\<open>BrandCheckerTool._run\<close>\<close>

text \<open>
  The model starts where the profile has been loaded and validated. Each block of
  the method that updates \<^verbatim>\<open>status\<close>, \<^verbatim>\<open>confidence\<close> and \<^verbatim>\<open>explanations\<close>
  is one function on \<^typ>\<open>eval_state\<close>; the other local variables it reads are its
  arguments.
\<close>

definition initial_state :: eval_state where
  "initial_state = \<lparr>status = ON_BRAND, confidence = 85, explanations = []\<rparr>"

definition append_explanation :: "Explanation \<Rightarrow> eval_state \<Rightarrow> eval_state" where
  "append_explanation e s = s\<lparr>explanations := explanations s @ [e]\<rparr>"

definition never_rule_explanation :: "string \<Rightarrow> Explanation" where
  "never_rule_explanation rule =
     \<lparr>text_of = ''Contains prohibited content: '' @ quoted rule,
      aspect = Some NEVER_RULE, severity = CRITICAL\<rparr>"

definition stage_never :: "string list \<Rightarrow> eval_state \<Rightarrow> py_error + eval_state" where
  "stage_never never_violations s =
     (if never_violations \<noteq> []
      then bind_err (py_first never_violations) (\<lambda>rule.
             Inr (append_explanation (never_rule_explanation rule)
                    (s\<lparr>status := OFF_BRAND, confidence := 95\<rparr>)))
      else Inr s)"

definition tone_explanation :: "string \<Rightarrow> Explanation" where
  "tone_explanation tone =
     \<lparr>text_of = ''Uses unacceptable tone: '' @ quoted tone,
      aspect = Some TONE, severity = CRITICAL\<rparr>"

definition stage_tone :: "string list \<Rightarrow> eval_state \<Rightarrow> py_error + eval_state" where
  "stage_tone unacc_found s =
     (if unacc_found \<noteq> []
      then let s1 = s\<lparr>status := OFF_BRAND, confidence := max (confidence s) 90\<rparr>
           in if length (explanations s1) < 3
              then bind_err (py_first unacc_found) (\<lambda>tone.
                     Inr (append_explanation (tone_explanation tone) s1))
              else Inr s1
      else Inr s)"

text \<open>The loop over the examples; the pair is (\<^verbatim>\<open>good_similarity\<close>, \<^verbatim>\<open>bad_similarity\<close>).\<close>

fun example_similarity :: "string \<Rightarrow> BrandExample list \<Rightarrow> rat \<times> rat \<Rightarrow> py_error + rat \<times> rat" where
  "example_similarity content [] acc = Inr acc"
| "example_similarity content (example # rest) acc =
     bind_err (calculate_word_overlap content (ex_content example)) (\<lambda>sim.
       example_similarity content rest
         (if ex_type example = Good then (max (fst acc) sim, snd acc)
          else (fst acc, max (snd acc) sim)))"

definition resembles_explanation :: "rat \<Rightarrow> Explanation" where
  "resembles_explanation bad_similarity =
     \<lparr>text_of = ''Content resembles known off-brand examples'',
      aspect = Some EXAMPLE_MATCH,
      severity = (if bad_similarity > 1/2 then CRITICAL else WARNING)\<rparr>"

definition stage_examples :: "rat \<Rightarrow> eval_state \<Rightarrow> eval_state" where
  "stage_examples bad_similarity s =
     (if bad_similarity > 3/10
      then let s1 = (if status s \<noteq> OFF_BRAND
                     then s\<lparr>status := (if bad_similarity > 1/2 then OFF_BRAND else BORDERLINE)\<rparr>
                     else s);
               s2 = s1\<lparr>confidence := max (confidence s1) 80\<rparr>
           in if length (explanations s2) < 3
              then append_explanation (resembles_explanation bad_similarity) s2
              else s2
      else s)"

definition stage_alignment :: "rat \<Rightarrow> eval_state \<Rightarrow> eval_state" where
  "stage_alignment combined s =
     (if status s = ON_BRAND
      then if combined < 3/10 then s\<lparr>status := BORDERLINE, confidence := 70\<rparr>
           else if combined < 1/2 then s\<lparr>status := BORDERLINE, confidence := 75\<rparr>
           else s\<lparr>confidence := 80 + py_int (combined * 15)\<rparr>
      else s)"

definition stage_positive :: "rat \<Rightarrow> rat \<Rightarrow> string list \<Rightarrow> eval_state \<Rightarrow> eval_state" where
  "stage_positive good_similarity val_score val_aligned s =
     (if explanations s = []
      then if good_similarity > 3/10
           then append_explanation
                  \<lparr>text_of = ''Content aligns well with established brand examples'',
                   aspect = Some EXAMPLE_MATCH, severity = INFO\<rparr> s
           else if val_score > 1/2
           then append_explanation
                  \<lparr>text_of = ''Content reflects brand values: '' @ join '', '' (take 2 val_aligned),
                   aspect = Some VALUE, severity = INFO\<rparr> s
           else append_explanation
                  \<lparr>text_of = ''Content is acceptable but could better reflect brand values'',
                   aspect = Some VALUE, severity = INFO\<rparr> s
      else s)"

definition stage_voice :: "rat \<Rightarrow> string list \<Rightarrow> eval_state \<Rightarrow> eval_state" where
  "stage_voice vo_score vo_missing s =
     (if length (explanations s) < 3 \<and> vo_score < 1/2 \<and> status s \<noteq> OFF_BRAND
      then if vo_missing \<noteq> []
           then append_explanation
                  \<lparr>text_of = ''Voice could better emphasize: '' @ join '', '' (take 2 vo_missing),
                   aspect = Some VOICE, severity = INFO\<rparr> s
           else s
      else s)"

definition stage_acceptable_tone :: "string list \<Rightarrow> eval_state \<Rightarrow> eval_state" where
  "stage_acceptable_tone acc_found s =
     (if length (explanations s) < 3 \<and> acc_found \<noteq> []
      then append_explanation
             \<lparr>text_of = ''Good use of brand tone: '' @ join '', '' (take 2 acc_found),
              aspect = Some TONE, severity = INFO\<rparr> s
      else s)"

definition stage_ensure :: "eval_state \<Rightarrow> eval_state" where
  "stage_ensure s =
     (if explanations s = []
      then append_explanation
             \<lparr>text_of = (if status s = ON_BRAND then ''Content aligns with brand guidelines''
                          else ''Content requires review for brand alignment''),
              aspect = None, severity = INFO\<rparr> s
      else s)"

definition severity_order :: "(ExplanationSeverity \<times> nat) list" where
  "severity_order = [(CRITICAL, 0), (WARNING, 1), (INFO, 2)]"

definition severity_rank :: "Explanation \<Rightarrow> nat" where
  \<comment> \<open>the sort key \<^verbatim>\<open>severity_order.get(x.get("severity", "info"), 2)\<close>\<close>
  "severity_rank x = (case map_of severity_order (severity x) of None \<Rightarrow> 2 | Some r \<Rightarrow> r)"

text \<open>
  \<^verbatim>\<open>list.sort\<close> is stable; \<^const>\<open>sort_key\<close> is the stable insertion sort. The slice
  \<^verbatim>\<open>[:3]\<close> is \<^term>\<open>take 3\<close>.
\<close>

definition stage_sort :: "eval_state \<Rightarrow> eval_state" where
  "stage_sort s = s\<lparr>explanations := take 3 (sort_key severity_rank (explanations s))\<rparr>"

definition status_display_table :: "(BrandAlignmentStatus \<times> nat list) list" where
  \<comment> \<open>the labels as code points; each ends with a pictograph outside the 8-bit range\<close>
  "status_display_table =
     [(ON_BRAND, map of_char ''On Brand '' @ [0x2705]),
      (BORDERLINE, map of_char ''Borderline '' @ [0x26A0, 0xFE0F]),
      (OFF_BRAND, map of_char ''Off Brand '' @ [0x274C])]"

definition status_display :: "BrandAlignmentStatus \<Rightarrow> py_error + nat list" where
  "status_display st =
     (case map_of status_display_table st of None \<Rightarrow> Inl KeyError | Some label \<Rightarrow> Inr label)"

definition encode_utf8 :: "string \<Rightarrow> nat list" where
  \<comment> \<open>\<^verbatim>\<open>content.encode()\<close> on code points below 256\<close>
  "encode_utf8 s =
     concat (map (\<lambda>c. let n = (of_char c :: nat)
                       in if n < 128 then [n] else [192 + n div 64, 128 + n mod 64]) s)"

text \<open>
  The run of the pipeline: the states after each of the nine stages, first the initial
  one, together with the raw rule outputs. The statements are in the order of the
  source, so an exception leaves at the place where the source raises it.
\<close>

definition run_stages :: "BrandProfile \<Rightarrow> string \<Rightarrow> py_error + eval_state list \<times> details" where
  "run_stages profile content =
     (let s0 = initial_state;
          never_violations = filter (contains_phrase content) (never_rules profile)
      in bind_err (stage_never never_violations s0) (\<lambda>s1.
         let unacc_found = filter (contains_phrase content) (tone_unacceptable profile);
             acc_found = filter (contains_phrase content) (tone_acceptable profile)
         in bind_err (stage_tone unacc_found s1) (\<lambda>s2.
            bind_err (example_similarity content (examples profile) (0, 0)) (\<lambda>sims.
            let good_similarity = fst sims;
                bad_similarity = snd sims;
                s3 = stage_examples bad_similarity s2;
                val_aligned = filter (contains_phrase content) (brand_values profile);
                vo_aligned = filter (contains_phrase content) (voice_descriptors profile)
            in bind_err (py_truediv (length val_aligned) (max (length (brand_values profile)) 1)) (\<lambda>val_score.
               bind_err (py_truediv (length vo_aligned) (max (length (voice_descriptors profile)) 1)) (\<lambda>vo_score.
               let combined = (val_score + vo_score) / 2;
                   s4 = stage_alignment combined s3;
                   s5 = stage_positive good_similarity val_score val_aligned s4;
                   vo_missing = filter (\<lambda>v. \<not> contains_phrase content v) (voice_descriptors profile);
                   s6 = stage_voice vo_score vo_missing s5;
                   s7 = stage_acceptable_tone acc_found s6;
                   s8 = stage_ensure s7;
                   s9 = stage_sort s8
               in Inr ([s0, s1, s2, s3, s4, s5, s6, s7, s8, s9],
                       \<lparr>neverRuleViolations = sort never_violations,
                        unacceptableToneFound = sort unacc_found,
                        valueAlignmentScore = val_score,
                        voiceAlignmentScore = vo_score,
                        exampleSimilarity_good = good_similarity,
                        exampleSimilarity_bad = bad_similarity\<rparr>)))))))"

text \<open>
  The method itself. The digest \<^verbatim>\<open>hashlib.sha256(...).hexdigest()\<close> and the clock
  \<^verbatim>\<open>datetime.utcnow().isoformat()\<close> are the two parameters.
\<close>

definition BrandCheckerTool_run ::
    "(nat list \<Rightarrow> string) \<Rightarrow> string \<Rightarrow> BrandProfile \<Rightarrow> string \<Rightarrow> py_error + BrandCheckResponse" where
  "BrandCheckerTool_run sha256_hex utcnow profile content =
     bind_err (run_stages profile content) (\<lambda>(states, det).
     bind_err (py_first (rev states)) (\<lambda>final.
     bind_err (status_display (status final)) (\<lambda>display.
       Inr \<lparr>r_status = status final,
            statusDisplay = display,
            r_explanations = explanations final,
            r_confidence = confidence final,
            profileVersion = version profile,
            checkedAt = utcnow @ ''Z'',
            contentHash = sha256_hex (encode_utf8 content),
            r_details = det\<rparr>)))"

text \<open>The escalation order of the three statuses.\<close>

fun status_rank :: "BrandAlignmentStatus \<Rightarrow> nat" where
  "status_rank ON_BRAND = 0"
| "status_rank BORDERLINE = 1"
| "status_rank OFF_BRAND = 2"

text \<open>A profile and, further down, a state at which the theorems below are instantiated.\<close>

definition acme :: BrandProfile where
  "acme = \<lparr>name = ''Acme'', version = ''1.0.0'',
            brand_values = [''innovative'', ''bold''],
            voice_descriptors = [''confident''],
            tone_acceptable = [], tone_unacceptable = [],
            never_rules = [''zero risk'', ''guaranteed results''],
            examples = [\<lparr>ex_content = ''Buy now, cheap stuff!'', ex_type = Bad, ex_note = None\<rparr>],
            description = None, created_at = None, updated_at = None\<rparr>"

text \<open>
  The wording of the specification for \<^verbatim>\<open>badSimilarity\<close>: the maximum similarity
  between the content and the examples of type bad, 0 if there is none.
\<close>

definition overlap_value :: "string \<Rightarrow> BrandExample \<Rightarrow> rat" where
  "overlap_value content example =
     (case calculate_word_overlap content (ex_content example) of Inr r \<Rightarrow> r | Inl _ \<Rightarrow> 0)"

definition spec_bad_similarity :: "string \<Rightarrow> BrandExample list \<Rightarrow> rat" where
  "spec_bad_similarity content exs =
     Max (set (0 # map (overlap_value content) (filter (\<lambda>e. ex_type e = Bad) exs)))"

definition off_brand_state :: eval_state where
  "off_brand_state = \<lparr>status = OFF_BRAND, confidence = 95, explanations = []\<rparr>"

section \<open>Basic facts about the primitives\<close>

lemma bind_err_Inr [simp]: "bind_err (Inr x) f = f x"
  by (simp add: bind_err_def)

lemma bind_err_Inl [simp]: "bind_err (Inl e) f = Inl e"
  by (simp add: bind_err_def)

lemma bind_err_eq_Inr: "bind_err m f = Inr y \<longleftrightarrow> (\<exists>x. m = Inr x \<and> f x = Inr y)"
  by (cases m) simp_all

lemma py_truediv_max: "py_truediv a (max n 1) = Inr (of_nat a / of_nat (max n 1))"
  by (simp add: py_truediv_def)

lemma py_truediv_max_Suc: "py_truediv a (max n (Suc 0)) = Inr (of_nat a / of_nat (max n 1))"
  by (simp add: py_truediv_def)

lemma py_first_Cons [simp]: "py_first (x # xs) = Inr x"
  by (simp add: py_first_def)

lemma finite_tokenize [simp]: "finite (tokenize s)"
  by (simp add: tokenize_def)

lemma overlap_cases:
  "calculate_word_overlap a b =
     (if tokenize a = {} \<or> tokenize b = {} then Inr 0
      else Inr (of_nat (card (tokenize a \<inter> tokenize b)) / of_nat (card (tokenize a \<union> tokenize b))))"
  by (auto simp: calculate_word_overlap_def Let_def py_truediv_def)

lemma overlap_range: "\<exists>r. calculate_word_overlap a b = Inr r \<and> 0 \<le> r \<and> r \<le> 1"
proof (cases "tokenize a = {} \<or> tokenize b = {}")
  case True
  then show ?thesis by (simp add: overlap_cases)
next
  case False
  have le: "card (tokenize a \<inter> tokenize b) \<le> card (tokenize a \<union> tokenize b)"
    by (rule card_mono) auto
  have pos: "0 < card (tokenize a \<union> tokenize b)"
    using False by (simp add: card_gt_0_iff)
  from le pos have "(of_nat (card (tokenize a \<inter> tokenize b)) :: rat) / of_nat (card (tokenize a \<union> tokenize b)) \<le> 1"
    by (simp add: divide_le_eq_1)
  with False show ?thesis by (simp add: overlap_cases)
qed

lemma overlap_sym: "calculate_word_overlap a b = calculate_word_overlap b a"
  by (simp add: overlap_cases Int_commute Un_commute disj_commute)

lemma overlap_self: "tokenize a \<noteq> {} \<Longrightarrow> calculate_word_overlap a a = Inr 1"
  by (simp add: overlap_cases card_gt_0_iff)

lemma normalize_empty [simp]: "normalize_text [] = []"
  by (simp add: normalize_text_def lower_def strip_def)

lemma tokenize_empty [simp]: "tokenize [] = {}"
  by (simp add: tokenize_def)

lemma lower_char_space: "isspace c \<Longrightarrow> isspace (lower_char c)"
  by (auto simp: isspace_def lower_char_def Let_def)

lemma strip_all_space: "list_all isspace s \<Longrightarrow> strip s = []"
proof -
  assume "list_all isspace s"
  then have h: "dropWhile isspace s = []"
    by (simp add: dropWhile_eq_Nil_conv list_all_iff)
  show ?thesis unfolding strip_def h by simp
qed

lemma normalize_all_space: "list_all isspace s \<Longrightarrow> normalize_text s = []"
  by (simp add: normalize_text_def lower_def strip_all_space list_all_iff lower_char_space)

lemma str_in_Nil [simp]: "str_in [] s"
  by (cases s) simp_all

lemma contains_empty: "list_all isspace phrase \<Longrightarrow> contains_phrase content phrase"
  by (simp add: contains_phrase_def normalize_all_space)

section \<open>Facts about the stages\<close>

lemma stage_never_eq:
  "stage_never nv s =
     Inr (case nv of [] \<Rightarrow> s
          | rule # _ \<Rightarrow> append_explanation (never_rule_explanation rule)
                          (s\<lparr>status := OFF_BRAND, confidence := 95\<rparr>))"
  by (cases nv) (simp_all add: stage_never_def)

lemma stage_tone_eq:
  "stage_tone uf s =
     Inr (case uf of [] \<Rightarrow> s
          | tone # _ \<Rightarrow>
              if length (explanations s) < 3
              then append_explanation (tone_explanation tone)
                     (s\<lparr>status := OFF_BRAND, confidence := max (confidence s) 90\<rparr>)
              else s\<lparr>status := OFF_BRAND, confidence := max (confidence s) 90\<rparr>)"
  by (cases uf) (simp_all add: stage_tone_def Let_def)

lemma example_similarity_total:
  "\<exists>g b. example_similarity c es acc = Inr (g, b)"
proof (induction es arbitrary: acc)
  case Nil
  then show ?case by (cases acc) simp
next
  case (Cons e es)
  obtain r where "calculate_word_overlap c (ex_content e) = Inr r"
    using overlap_range by blast
  then show ?case using Cons.IH by simp
qed

lemma run_stages_obtain:
  obtains s1 s2 g b vs ws s3 s4 s5 s6 s7 s8 s9 where
    "stage_never (filter (contains_phrase c) (never_rules p)) initial_state = Inr s1"
    "stage_tone (filter (contains_phrase c) (tone_unacceptable p)) s1 = Inr s2"
    "example_similarity c (examples p) (0, 0) = Inr (g, b)"
    "vs = of_nat (length (filter (contains_phrase c) (brand_values p))) / of_nat (max (length (brand_values p)) 1)"
    "ws = of_nat (length (filter (contains_phrase c) (voice_descriptors p))) / of_nat (max (length (voice_descriptors p)) 1)"
    "s3 = stage_examples b s2"
    "s4 = stage_alignment ((vs + ws) / 2) s3"
    "s5 = stage_positive g vs (filter (contains_phrase c) (brand_values p)) s4"
    "s6 = stage_voice ws (filter (\<lambda>v. \<not> contains_phrase c v) (voice_descriptors p)) s5"
    "s7 = stage_acceptable_tone (filter (contains_phrase c) (tone_acceptable p)) s6"
    "s8 = stage_ensure s7"
    "s9 = stage_sort s8"
    "run_stages p c =
       Inr ([initial_state, s1, s2, s3, s4, s5, s6, s7, s8, s9],
            \<lparr>neverRuleViolations = sort (filter (contains_phrase c) (never_rules p)),
             unacceptableToneFound = sort (filter (contains_phrase c) (tone_unacceptable p)),
             valueAlignmentScore = vs, voiceAlignmentScore = ws,
             exampleSimilarity_good = g, exampleSimilarity_bad = b\<rparr>)"
proof -
  obtain s1 where s1: "stage_never (filter (contains_phrase c) (never_rules p)) initial_state = Inr s1"
    by (simp add: stage_never_eq)
  obtain s2 where s2: "stage_tone (filter (contains_phrase c) (tone_unacceptable p)) s1 = Inr s2"
    by (simp add: stage_tone_eq)
  obtain g b where gb: "example_similarity c (examples p) (0, 0) = Inr (g, b)"
    using example_similarity_total by blast
  show ?thesis
    by (rule that[OF s1 s2 gb refl refl refl refl refl refl refl refl refl])
       (simp add: run_stages_def Let_def s1 s2 gb py_truediv_max_Suc)
qed

lemma status_rank_le_2: "status_rank st \<le> 2"
  by (cases st) simp_all

lemma status_display_total: "\<exists>label. status_display st = Inr label"
  by (cases st) (simp_all add: status_display_def status_display_table_def)

lemma run_obtain:
  obtains states det final label where
    "run_stages p c = Inr (states, det)"
    "states \<noteq> []" "final = last states"
    "status_display (status final) = Inr label"
    "BrandCheckerTool_run H now p c =
       Inr \<lparr>r_status = status final, statusDisplay = label,
            r_explanations = explanations final, r_confidence = confidence final,
            profileVersion = version p, checkedAt = now @ ''Z'',
            contentHash = H (encode_utf8 c), r_details = det\<rparr>"
proof -
  obtain states det where rs: "run_stages p c = Inr (states, det)" and ne: "states \<noteq> []"
    by (rule run_stages_obtain[of c p]) simp
  obtain label where lb: "status_display (status (last states)) = Inr label"
    using status_display_total by blast
  have fst: "py_first (rev states) = Inr (last states)"
    using ne by (cases states rule: rev_cases) (simp_all add: py_first_def)
  show ?thesis
    by (rule that[OF rs ne refl lb]) (simp add: BrandCheckerTool_run_def rs fst lb)
qed

subsection \<open>status\<close>

lemma stage_never_mono:
  "\<exists>s'. stage_never nv s = Inr s' \<and> status_rank (status s) \<le> status_rank (status s')"
  by (cases nv) (simp_all add: stage_never_eq append_explanation_def status_rank_le_2)

lemma stage_tone_mono:
  "\<exists>s'. stage_tone uf s = Inr s' \<and> status_rank (status s) \<le> status_rank (status s')"
  by (cases uf) (simp_all add: stage_tone_eq append_explanation_def status_rank_le_2)

lemma stage_examples_mono:
  "status_rank (status s) \<le> status_rank (status (stage_examples b s))"
  by (cases "status s") (simp_all add: stage_examples_def Let_def append_explanation_def)

lemma stage_alignment_mono:
  "status_rank (status s) \<le> status_rank (status (stage_alignment combined s))"
  by (simp add: stage_alignment_def)

lemma stage_positive_same [simp]:
  "status (stage_positive g vs va s) = status s"
  "confidence (stage_positive g vs va s) = confidence s"
  by (simp_all add: stage_positive_def append_explanation_def)

lemma stage_voice_same [simp]:
  "status (stage_voice ws vm s) = status s"
  "confidence (stage_voice ws vm s) = confidence s"
  by (simp_all add: stage_voice_def append_explanation_def)

lemma stage_acceptable_tone_same [simp]:
  "status (stage_acceptable_tone af s) = status s"
  "confidence (stage_acceptable_tone af s) = confidence s"
  by (simp_all add: stage_acceptable_tone_def append_explanation_def)

lemma stage_ensure_same [simp]:
  "status (stage_ensure s) = status s"
  "confidence (stage_ensure s) = confidence s"
  by (simp_all add: stage_ensure_def append_explanation_def)

lemma stage_sort_same [simp]:
  "status (stage_sort s) = status s"
  "confidence (stage_sort s) = confidence s"
  by (simp_all add: stage_sort_def)

subsection \<open>number of explanations\<close>

lemma stage_never_length:
  "stage_never nv s = Inr s' \<Longrightarrow> explanations s = [] \<Longrightarrow> length (explanations s') \<le> 1"
  by (cases nv) (auto simp: stage_never_eq append_explanation_def)

lemma stage_tone_length:
  "stage_tone uf s = Inr s' \<Longrightarrow> length (explanations s) \<le> 1 \<Longrightarrow> length (explanations s') \<le> 2"
  by (cases uf) (auto simp: stage_tone_eq append_explanation_def)

lemma stage_examples_length:
  "length (explanations s) \<le> 2 \<Longrightarrow> length (explanations (stage_examples b s)) \<le> 3"
  by (simp add: stage_examples_def Let_def append_explanation_def)

lemma stage_alignment_explanations [simp]:
  "explanations (stage_alignment combined s) = explanations s"
  by (simp add: stage_alignment_def)

lemma stage_positive_length:
  "length (explanations s) \<le> 3 \<Longrightarrow> length (explanations (stage_positive g vs va s)) \<le> 3"
  by (simp add: stage_positive_def append_explanation_def)

lemma stage_voice_length:
  "length (explanations s) \<le> 3 \<Longrightarrow> length (explanations (stage_voice ws vm s)) \<le> 3"
  by (simp add: stage_voice_def append_explanation_def)

lemma stage_acceptable_tone_length:
  "length (explanations s) \<le> 3 \<Longrightarrow> length (explanations (stage_acceptable_tone af s)) \<le> 3"
  by (simp add: stage_acceptable_tone_def append_explanation_def)

lemma stage_ensure_length:
  "length (explanations s) \<le> 3 \<Longrightarrow> length (explanations (stage_ensure s)) \<le> 3"
  by (simp add: stage_ensure_def append_explanation_def)

lemma stage_ensure_nonempty: "explanations (stage_ensure s) \<noteq> []"
  by (simp add: stage_ensure_def append_explanation_def)

lemma stage_sort_explanations:
  "explanations (stage_sort s) = take 3 (sort_key severity_rank (explanations s))"
  by (simp add: stage_sort_def)

lemma stage_sort_length:
  "explanations s \<noteq> [] \<Longrightarrow>
   1 \<le> length (explanations (stage_sort s)) \<and> length (explanations (stage_sort s)) \<le> 3"
  by (cases "explanations s") (simp_all add: stage_sort_def)

text \<open>Before the sort there are never more than three explanations.\<close>

lemma run_stages_presort:
  assumes "run_stages p c = Inr (states, det)"
  shows "length states = 10 \<and> explanations (states ! 8) \<noteq> [] \<and> length (explanations (states ! 8)) \<le> 3
         \<and> states ! 9 = stage_sort (states ! 8) \<and> last states = states ! 9"
proof (rule run_stages_obtain[of c p])
  fix s1 s2 g b vs ws s3 s4 s5 s6 s7 s8 s9
  assume s1: "stage_never (filter (contains_phrase c) (never_rules p)) initial_state = Inr s1"
    and s2: "stage_tone (filter (contains_phrase c) (tone_unacceptable p)) s1 = Inr s2"
    and s3: "s3 = stage_examples b s2"
    and s4: "s4 = stage_alignment ((vs + ws) / 2) s3"
    and s5: "s5 = stage_positive g vs (filter (contains_phrase c) (brand_values p)) s4"
    and s6: "s6 = stage_voice ws (filter (\<lambda>v. \<not> contains_phrase c v) (voice_descriptors p)) s5"
    and s7: "s7 = stage_acceptable_tone (filter (contains_phrase c) (tone_acceptable p)) s6"
    and s8: "s8 = stage_ensure s7"
    and s9: "s9 = stage_sort s8"
    and run: "run_stages p c =
       Inr ([initial_state, s1, s2, s3, s4, s5, s6, s7, s8, s9],
            \<lparr>neverRuleViolations = sort (filter (contains_phrase c) (never_rules p)),
             unacceptableToneFound = sort (filter (contains_phrase c) (tone_unacceptable p)),
             valueAlignmentScore = vs, voiceAlignmentScore = ws,
             exampleSimilarity_good = g, exampleSimilarity_bad = b\<rparr>)"
  have st: "states = [initial_state, s1, s2, s3, s4, s5, s6, s7, s8, s9]"
    using assms run by simp
  have l1: "length (explanations s1) \<le> 1"
    using stage_never_length[OF s1] by (simp add: initial_state_def)
  have l2: "length (explanations s2) \<le> 2"
    using stage_tone_length[OF s2 l1] .
  have l3: "length (explanations s3) \<le> 3"
    unfolding s3 using l2 by (rule stage_examples_length)
  have l4: "length (explanations s4) \<le> 3"
    unfolding s4 using l3 by simp
  have l5: "length (explanations s5) \<le> 3"
    unfolding s5 using l4 by (rule stage_positive_length)
  have l6: "length (explanations s6) \<le> 3"
    unfolding s6 using l5 by (rule stage_voice_length)
  have l7: "length (explanations s7) \<le> 3"
    unfolding s7 using l6 by (rule stage_acceptable_tone_length)
  have l8: "length (explanations s8) \<le> 3"
    unfolding s8 using l7 by (rule stage_ensure_length)
  have n8: "explanations s8 \<noteq> []"
    unfolding s8 by (rule stage_ensure_nonempty)
  show ?thesis
    using l8 n8 s9 by (simp add: st)
qed

lemma severity_rank_cases:
  "severity_rank e = (case severity e of CRITICAL \<Rightarrow> 0 | WARNING \<Rightarrow> 1 | INFO \<Rightarrow> 2)"
  by (cases "severity e") (simp_all add: severity_rank_def severity_order_def)

lemma run_stages_status_sorted:
  assumes "run_stages p c = Inr (states, det)"
  shows "status (hd states) = ON_BRAND \<and> sorted (map (status_rank \<circ> status) states)"
proof (rule run_stages_obtain[of c p])
  fix s1 s2 g b vs ws s3 s4 s5 s6 s7 s8 s9
  assume s1: "stage_never (filter (contains_phrase c) (never_rules p)) initial_state = Inr s1"
    and s2: "stage_tone (filter (contains_phrase c) (tone_unacceptable p)) s1 = Inr s2"
    and s3: "s3 = stage_examples b s2"
    and s4: "s4 = stage_alignment ((vs + ws) / 2) s3"
    and s5: "s5 = stage_positive g vs (filter (contains_phrase c) (brand_values p)) s4"
    and s6: "s6 = stage_voice ws (filter (\<lambda>v. \<not> contains_phrase c v) (voice_descriptors p)) s5"
    and s7: "s7 = stage_acceptable_tone (filter (contains_phrase c) (tone_acceptable p)) s6"
    and s8: "s8 = stage_ensure s7"
    and s9: "s9 = stage_sort s8"
    and run: "run_stages p c =
       Inr ([initial_state, s1, s2, s3, s4, s5, s6, s7, s8, s9],
            \<lparr>neverRuleViolations = sort (filter (contains_phrase c) (never_rules p)),
             unacceptableToneFound = sort (filter (contains_phrase c) (tone_unacceptable p)),
             valueAlignmentScore = vs, voiceAlignmentScore = ws,
             exampleSimilarity_good = g, exampleSimilarity_bad = b\<rparr>)"
  have st: "states = [initial_state, s1, s2, s3, s4, s5, s6, s7, s8, s9]"
    using assms run by simp
  have r1: "status_rank (status s1) \<le> status_rank (status s2)"
    using stage_tone_mono[of "filter (contains_phrase c) (tone_unacceptable p)" s1] s2 by auto
  have r2: "status_rank (status s2) \<le> status_rank (status s3)"
    unfolding s3 by (rule stage_examples_mono)
  have r3: "status_rank (status s3) \<le> status_rank (status s4)"
    unfolding s4 by (rule stage_alignment_mono)
  have r4: "status s5 = status s4" "status s6 = status s4" "status s7 = status s4"
    "status s8 = status s4" "status s9 = status s4"
    by (simp_all add: s5 s6 s7 s8 s9)
  show ?thesis
    using r1 r2 r3 r4 by (simp add: st initial_state_def)
qed



subsection \<open>explanations are only appended\<close>

lemma stage_tone_appends:
  "stage_tone uf s = Inr s' \<Longrightarrow> \<exists>suf. explanations s' = explanations s @ suf"
  by (cases uf) (auto simp: stage_tone_eq append_explanation_def split: if_splits)

lemma stage_examples_appends:
  "\<exists>suf. explanations (stage_examples b s) = explanations s @ suf"
  by (simp add: stage_examples_def Let_def append_explanation_def)

lemma stage_positive_appends:
  "\<exists>suf. explanations (stage_positive g vs va s) = explanations s @ suf"
  by (simp add: stage_positive_def append_explanation_def)

lemma stage_voice_appends:
  "\<exists>suf. explanations (stage_voice ws vm s) = explanations s @ suf"
  by (simp add: stage_voice_def append_explanation_def)

lemma stage_acceptable_tone_appends:
  "\<exists>suf. explanations (stage_acceptable_tone af s) = explanations s @ suf"
  by (simp add: stage_acceptable_tone_def append_explanation_def)

lemma stage_ensure_appends:
  "\<exists>suf. explanations (stage_ensure s) = explanations s @ suf"
  by (simp add: stage_ensure_def append_explanation_def)

lemma run_stages_appends:
  assumes "run_stages p c = Inr (states, det)"
  shows "\<exists>u v. explanations (states ! 3) = explanations (states ! 1) @ u
             \<and> explanations (states ! 8) = explanations (states ! 3) @ v"
proof (rule run_stages_obtain[of c p])
  fix s1 s2 g b vs ws s3 s4 s5 s6 s7 s8 s9
  assume s2: "stage_tone (filter (contains_phrase c) (tone_unacceptable p)) s1 = Inr s2"
    and s3: "s3 = stage_examples b s2"
    and s4: "s4 = stage_alignment ((vs + ws) / 2) s3"
    and s5: "s5 = stage_positive g vs (filter (contains_phrase c) (brand_values p)) s4"
    and s6: "s6 = stage_voice ws (filter (\<lambda>v. \<not> contains_phrase c v) (voice_descriptors p)) s5"
    and s7: "s7 = stage_acceptable_tone (filter (contains_phrase c) (tone_acceptable p)) s6"
    and s8: "s8 = stage_ensure s7"
    and run: "run_stages p c =
       Inr ([initial_state, s1, s2, s3, s4, s5, s6, s7, s8, s9],
            \<lparr>neverRuleViolations = sort (filter (contains_phrase c) (never_rules p)),
             unacceptableToneFound = sort (filter (contains_phrase c) (tone_unacceptable p)),
             valueAlignmentScore = vs, voiceAlignmentScore = ws,
             exampleSimilarity_good = g, exampleSimilarity_bad = b\<rparr>)"
  have st: "states = [initial_state, s1, s2, s3, s4, s5, s6, s7, s8, s9]"
    using assms run by simp
  obtain u2 where u2: "explanations s2 = explanations s1 @ u2"
    using stage_tone_appends[OF s2] by blast
  obtain u3 where u3: "explanations s3 = explanations s2 @ u3"
    unfolding s3 using stage_examples_appends by blast
  have u4: "explanations s4 = explanations s3"
    by (simp add: s4)
  obtain u5 where u5: "explanations s5 = explanations s4 @ u5"
    unfolding s5 using stage_positive_appends by blast
  obtain u6 where u6: "explanations s6 = explanations s5 @ u6"
    unfolding s6 using stage_voice_appends by blast
  obtain u7 where u7: "explanations s7 = explanations s6 @ u7"
    unfolding s7 using stage_acceptable_tone_appends by blast
  obtain u8 where u8: "explanations s8 = explanations s7 @ u8"
    unfolding s8 using stage_ensure_appends by blast
  have a: "explanations s3 = explanations s1 @ (u2 @ u3)"
    by (simp add: u3 u2)
  have b: "explanations s8 = explanations s3 @ (u5 @ u6 @ u7 @ u8)"
    by (simp add: u8 u7 u6 u5 u4)
  show ?thesis
    using a b by (simp add: st)
qed

text \<open>The sort keeps every explanation, since there are at most three.\<close>

lemma run_stages_final_explanations:
  assumes "run_stages p c = Inr (states, det)"
  shows "explanations (last states) = sort_key severity_rank (explanations (states ! 8))"
  using run_stages_presort[OF assms] by (simp add: stage_sort_explanations)

lemma sort_key_least_first:
  assumes "f x = (0::nat)"
  shows "sort_key f (x # xs) = x # sort_key f xs"
proof -
  have "insort_key f x ys = x # ys" for ys
    using assms by (cases ys) simp_all
  then show ?thesis by simp
qed

subsection \<open>a violated never-rule\<close>

lemma stage_tone_keeps_off_95:
  assumes "stage_tone uf s = Inr s'" "status s = OFF_BRAND" "confidence s = 95"
  shows "status s' = OFF_BRAND \<and> confidence s' = 95"
  using assms by (cases uf) (auto simp: stage_tone_eq append_explanation_def split: if_splits)

lemma stage_examples_keeps_off_95:
  assumes "status s = OFF_BRAND" "confidence s = 95"
  shows "status (stage_examples b s) = OFF_BRAND \<and> confidence (stage_examples b s) = 95"
  using assms by (simp add: stage_examples_def Let_def append_explanation_def)

lemma stage_alignment_escalated:
  "status s \<noteq> ON_BRAND \<Longrightarrow> stage_alignment combined s = s"
  by (simp add: stage_alignment_def)

lemma never_violation_verdict:
  assumes nv: "filter (contains_phrase c) (never_rules p) = rule # others"
  shows "\<exists>r more. BrandCheckerTool_run H now p c = Inr r \<and> r_status r = OFF_BRAND
           \<and> r_confidence r = 95 \<and> r_explanations r = never_rule_explanation rule # more"
proof (rule run_stages_obtain[of c p])
  fix s1 s2 g b vs ws s3 s4 s5 s6 s7 s8 s9
  assume s1: "stage_never (filter (contains_phrase c) (never_rules p)) initial_state = Inr s1"
    and s2: "stage_tone (filter (contains_phrase c) (tone_unacceptable p)) s1 = Inr s2"
    and s3: "s3 = stage_examples b s2"
    and s4: "s4 = stage_alignment ((vs + ws) / 2) s3"
    and s5: "s5 = stage_positive g vs (filter (contains_phrase c) (brand_values p)) s4"
    and s6: "s6 = stage_voice ws (filter (\<lambda>v. \<not> contains_phrase c v) (voice_descriptors p)) s5"
    and s7: "s7 = stage_acceptable_tone (filter (contains_phrase c) (tone_acceptable p)) s6"
    and s8: "s8 = stage_ensure s7"
    and s9: "s9 = stage_sort s8"
    and run: "run_stages p c =
       Inr ([initial_state, s1, s2, s3, s4, s5, s6, s7, s8, s9],
            \<lparr>neverRuleViolations = sort (filter (contains_phrase c) (never_rules p)),
             unacceptableToneFound = sort (filter (contains_phrase c) (tone_unacceptable p)),
             valueAlignmentScore = vs, voiceAlignmentScore = ws,
             exampleSimilarity_good = g, exampleSimilarity_bad = b\<rparr>)"
  let ?states = "[initial_state, s1, s2, s3, s4, s5, s6, s7, s8, s9]"
  have e1: "s1 = append_explanation (never_rule_explanation rule)
                   (initial_state\<lparr>status := OFF_BRAND, confidence := 95\<rparr>)"
    using s1 by (simp add: stage_never_eq nv)
  have p1: "status s1 = OFF_BRAND" "confidence s1 = 95"
    "explanations s1 = [never_rule_explanation rule]"
    by (simp_all add: e1 append_explanation_def initial_state_def)
  have p2: "status s2 = OFF_BRAND \<and> confidence s2 = 95"
    using stage_tone_keeps_off_95[OF s2 p1(1) p1(2)] .
  have p3: "status s3 = OFF_BRAND \<and> confidence s3 = 95"
    unfolding s3 using p2 by (simp add: stage_examples_keeps_off_95)
  have p4: "s4 = s3"
    unfolding s4 using p3 by (simp add: stage_alignment_escalated)
  have p9: "status s9 = OFF_BRAND" "confidence s9 = 95"
    using p3 by (simp_all add: s9 s8 s7 s6 s5 p4)
  obtain u v where "explanations (?states ! 3) = explanations (?states ! 1) @ u"
    and "explanations (?states ! 8) = explanations (?states ! 3) @ v"
    using run_stages_appends[OF run] by blast
  then have e8: "explanations s8 = never_rule_explanation rule # (u @ v)"
    by (simp add: p1)
  have rk: "severity_rank (never_rule_explanation rule) = 0"
    by (simp add: severity_rank_cases never_rule_explanation_def)
  have e9: "explanations s9 = never_rule_explanation rule # take 2 (sort_key severity_rank (u @ v))"
    unfolding s9 stage_sort_explanations e8
      sort_key_least_first[of severity_rank "never_rule_explanation rule", OF rk]
    by (simp add: numeral_3_eq_3 numeral_2_eq_2)
  show ?thesis
  proof (rule run_obtain[of p c H now])
    fix states det final label
    assume rs: "run_stages p c = Inr (states, det)"
      and fin: "final = last states"
      and r: "BrandCheckerTool_run H now p c =
         Inr \<lparr>r_status = status final, statusDisplay = label,
              r_explanations = explanations final, r_confidence = confidence final,
              profileVersion = version p, checkedAt = now @ ''Z'',
              contentHash = H (encode_utf8 c), r_details = det\<rparr>"
    have "final = s9"
      using rs run fin by auto
    then show ?thesis
      using p9 e9 by (simp add: r)
  qed
qed

lemma first_violation_split:
  assumes "\<exists>x \<in> set rules. P x"
  shows "\<exists>before rule after. rules = before @ rule # after \<and> P rule
           \<and> list_all (\<lambda>x. \<not> P x) before \<and> filter P rules = rule # filter P after"
proof -
  from assms obtain before rule after where
    sp: "rules = before @ rule # after" "P rule" "\<forall>y \<in> set before. \<not> P y"
    using split_list_first_prop by metis
  then have "filter P before = []"
    by (simp add: filter_empty_conv)
  with sp show ?thesis
    by (auto simp: list_all_iff)
qed

subsection \<open>the similarity loop\<close>

lemma overlap_value_eq:
  "calculate_word_overlap c (ex_content e) = Inr (overlap_value c e)"
  using overlap_range[of c "ex_content e"] by (auto simp: overlap_value_def)

lemma example_similarity_bad:
  "example_similarity c es acc = Inr (g, b) \<Longrightarrow>
   b = fold max (map (overlap_value c) (filter (\<lambda>e. ex_type e = Bad) es)) (snd acc)"
proof (induction es arbitrary: acc)
  case Nil
  then show ?case by auto
next
  case (Cons e es)
  show ?case
  proof (cases "ex_type e = Good")
    case True
    with Cons.prems have "example_similarity c es (max (fst acc) (overlap_value c e), snd acc) = Inr (g, b)"
      by (simp add: overlap_value_eq)
    from Cons.IH[OF this] True show ?thesis by simp
  next
    case False
    then have bad: "ex_type e = Bad" by (cases "ex_type e") simp_all
    from False Cons.prems have "example_similarity c es (fst acc, max (snd acc) (overlap_value c e)) = Inr (g, b)"
      by (simp add: overlap_value_eq)
    from Cons.IH[OF this] bad show ?thesis by (simp add: max.commute)
  qed
qed

lemma example_similarity_spec:
  "example_similarity c es (0, 0) = Inr (g, b) \<Longrightarrow> b = spec_bad_similarity c es"
  using example_similarity_bad[of c es "(0, 0)" g b]
  by (simp add: spec_bad_similarity_def Max.set_eq_fold del: set_simps)

lemma run_stages_shape:
  assumes "run_stages p c = Inr (states, det)"
  shows "exampleSimilarity_bad det = spec_bad_similarity c (examples p)"
    and "valueAlignmentScore det =
           of_nat (length (filter (contains_phrase c) (brand_values p)))
             / of_nat (max (length (brand_values p)) 1)"
    and "voiceAlignmentScore det =
           of_nat (length (filter (contains_phrase c) (voice_descriptors p)))
             / of_nat (max (length (voice_descriptors p)) 1)"
    and "states ! 3 = stage_examples (exampleSimilarity_bad det) (states ! 2)"
    and "states ! 4 = stage_alignment ((valueAlignmentScore det + voiceAlignmentScore det) / 2) (states ! 3)"
    and "length (explanations (states ! 2)) \<le> 2"
    and "status (last states) = status (states ! 4)"
    and "confidence (last states) = confidence (states ! 4)"
proof -
  have "exampleSimilarity_bad det = spec_bad_similarity c (examples p)
    \<and> valueAlignmentScore det =
           of_nat (length (filter (contains_phrase c) (brand_values p)))
             / of_nat (max (length (brand_values p)) 1)
    \<and> voiceAlignmentScore det =
           of_nat (length (filter (contains_phrase c) (voice_descriptors p)))
             / of_nat (max (length (voice_descriptors p)) 1)
    \<and> states ! 3 = stage_examples (exampleSimilarity_bad det) (states ! 2)
    \<and> states ! 4 = stage_alignment ((valueAlignmentScore det + voiceAlignmentScore det) / 2) (states ! 3)
    \<and> length (explanations (states ! 2)) \<le> 2
    \<and> status (last states) = status (states ! 4)
    \<and> confidence (last states) = confidence (states ! 4)"
  proof (rule run_stages_obtain[of c p])
    fix s1 s2 g b vs ws s3 s4 s5 s6 s7 s8 s9
    assume s1: "stage_never (filter (contains_phrase c) (never_rules p)) initial_state = Inr s1"
      and s2: "stage_tone (filter (contains_phrase c) (tone_unacceptable p)) s1 = Inr s2"
      and gb: "example_similarity c (examples p) (0, 0) = Inr (g, b)"
      and vs: "vs = of_nat (length (filter (contains_phrase c) (brand_values p))) / of_nat (max (length (brand_values p)) 1)"
      and ws: "ws = of_nat (length (filter (contains_phrase c) (voice_descriptors p))) / of_nat (max (length (voice_descriptors p)) 1)"
      and s3: "s3 = stage_examples b s2"
      and s4: "s4 = stage_alignment ((vs + ws) / 2) s3"
      and s5: "s5 = stage_positive g vs (filter (contains_phrase c) (brand_values p)) s4"
      and s6: "s6 = stage_voice ws (filter (\<lambda>v. \<not> contains_phrase c v) (voice_descriptors p)) s5"
      and s7: "s7 = stage_acceptable_tone (filter (contains_phrase c) (tone_acceptable p)) s6"
      and s8: "s8 = stage_ensure s7"
      and s9: "s9 = stage_sort s8"
      and run: "run_stages p c =
         Inr ([initial_state, s1, s2, s3, s4, s5, s6, s7, s8, s9],
              \<lparr>neverRuleViolations = sort (filter (contains_phrase c) (never_rules p)),
               unacceptableToneFound = sort (filter (contains_phrase c) (tone_unacceptable p)),
               valueAlignmentScore = vs, voiceAlignmentScore = ws,
               exampleSimilarity_good = g, exampleSimilarity_bad = b\<rparr>)"
    have st: "states = [initial_state, s1, s2, s3, s4, s5, s6, s7, s8, s9]"
      and det: "det = \<lparr>neverRuleViolations = sort (filter (contains_phrase c) (never_rules p)),
               unacceptableToneFound = sort (filter (contains_phrase c) (tone_unacceptable p)),
               valueAlignmentScore = vs, voiceAlignmentScore = ws,
               exampleSimilarity_good = g, exampleSimilarity_bad = b\<rparr>"
      using assms run by simp_all
    have l1: "length (explanations s1) \<le> 1"
      using stage_never_length[OF s1] by (simp add: initial_state_def)
    have l2: "length (explanations s2) \<le> 2"
      using stage_tone_length[OF s2 l1] .
    have b: "b = spec_bad_similarity c (examples p)"
      using gb by (rule example_similarity_spec)
    have s94: "status s9 = status s4" "confidence s9 = confidence s4"
      by (simp_all add: s5 s6 s7 s8 s9)
    show ?thesis
      using l2 b s94 vs ws s3 s4 by (simp add: st det)
  qed
  then show "exampleSimilarity_bad det = spec_bad_similarity c (examples p)"
    and "valueAlignmentScore det =
           of_nat (length (filter (contains_phrase c) (brand_values p)))
             / of_nat (max (length (brand_values p)) 1)"
    and "voiceAlignmentScore det =
           of_nat (length (filter (contains_phrase c) (voice_descriptors p)))
             / of_nat (max (length (voice_descriptors p)) 1)"
    and "states ! 3 = stage_examples (exampleSimilarity_bad det) (states ! 2)"
    and "states ! 4 = stage_alignment ((valueAlignmentScore det + voiceAlignmentScore det) / 2) (states ! 3)"
    and "length (explanations (states ! 2)) \<le> 2"
    and "status (last states) = status (states ! 4)"
    and "confidence (last states) = confidence (states ! 4)"
    by blast+
qed

lemma score_range:
  "0 \<le> (of_nat (length (filter P xs)) :: rat) / of_nat (max (length xs) 1)
   \<and> (of_nat (length (filter P xs)) :: rat) / of_nat (max (length xs) 1) \<le> 1"
proof -
  have "length (filter P xs) \<le> max (length xs) 1"
    using length_filter_le[of P xs] by (simp add: le_max_iff_disj)
  then have "(of_nat (length (filter P xs)) :: rat) \<le> of_nat (max (length xs) 1)"
    using of_nat_le_iff by blast
  then show ?thesis
    by (simp add: divide_le_eq_1)
qed

lemma run_stages_kept:
  assumes "run_stages p c = Inr (states, det)"
  shows "set (explanations (states ! 3)) \<subseteq> set (explanations (last states))"
proof -
  obtain u v where "explanations (states ! 8) = explanations (states ! 3) @ v"
    using run_stages_appends[OF assms] by blast
  then show ?thesis
    by (simp add: run_stages_final_explanations[OF assms])
qed

lemma run_obtain_final:
  obtains states det r where
    "run_stages p c = Inr (states, det)"
    "BrandCheckerTool_run H now p c = Inr r"
    "r_status r = status (last states)"
    "r_confidence r = confidence (last states)"
    "r_explanations r = explanations (last states)"
    "r_details r = det"
proof (rule run_obtain[of p c H now])
  fix states det final label
  assume rs: "run_stages p c = Inr (states, det)"
    and fin: "final = last states"
    and r: "BrandCheckerTool_run H now p c =
       Inr \<lparr>r_status = status final, statusDisplay = label,
            r_explanations = explanations final, r_confidence = confidence final,
            profileVersion = version p, checkedAt = now @ ''Z'',
            contentHash = H (encode_utf8 c), r_details = det\<rparr>"
  show ?thesis
    by (rule that[OF rs r]) (simp_all add: fin)
qed

text \<open>The content of the bad example of \<^const>\<open>acme\<close>, up to punctuation and case.\<close>

lemma acme_bad_similarity:
  "spec_bad_similarity ''Buy now: cheap stuff'' (examples acme) = 1"
  by code_simp

section \<open>The claims\<close>

text \<open>
  C5. Every verdict carries at least one and at most three explanations, for every
  profile and every content.
\<close>

theorem C5_explanation_bounds:
  "\<exists>r. BrandCheckerTool_run sha256_hex utcnow profile content = Inr r
       \<and> 1 \<le> length (r_explanations r) \<and> length (r_explanations r) \<le> 3"
proof (rule run_obtain[of profile content sha256_hex utcnow])
  fix states det final label
  assume rs: "run_stages profile content = Inr (states, det)"
    and fin: "final = last states"
    and run: "BrandCheckerTool_run sha256_hex utcnow profile content =
       Inr \<lparr>r_status = status final, statusDisplay = label,
            r_explanations = explanations final, r_confidence = confidence final,
            profileVersion = version profile, checkedAt = utcnow @ ''Z'',
            contentHash = sha256_hex (encode_utf8 content), r_details = det\<rparr>"
  from run_stages_presort[OF rs]
  have "1 \<le> length (explanations final) \<and> length (explanations final) \<le> 3"
    using fin stage_sort_length[of "states ! 8"] by simp
  then show ?thesis by (simp add: run)
qed



text \<open>
  C2. No stage lowers the status: from any state, each of the four stages that assign
  the status leaves it or raises it in the order on-brand, borderline, off-brand, and
  the five later stages leave it as it is. Along a run the statuses after the
  successive stages, starting with on-brand, are therefore non-decreasing, and the
  verdict carries the last one.
\<close>

theorem C2_status_monotone:
  "(\<exists>s'. stage_never never_violations s = Inr s'
          \<and> status_rank (status s) \<le> status_rank (status s'))
   \<and> (\<exists>s'. stage_tone unacc_found s = Inr s'
          \<and> status_rank (status s) \<le> status_rank (status s'))
   \<and> status_rank (status s) \<le> status_rank (status (stage_examples bad_similarity s))
   \<and> status_rank (status s) \<le> status_rank (status (stage_alignment combined s))
   \<and> status (stage_positive good_similarity val_score val_aligned s) = status s
   \<and> status (stage_voice vo_score vo_missing s) = status s
   \<and> status (stage_acceptable_tone acc_found s) = status s
   \<and> status (stage_ensure s) = status s
   \<and> status (stage_sort s) = status s
   \<and> (\<exists>states det r.
          run_stages profile content = Inr (states, det)
          \<and> length states = 10
          \<and> status (hd states) = ON_BRAND
          \<and> sorted (map (status_rank \<circ> status) states)
          \<and> BrandCheckerTool_run sha256_hex utcnow profile content = Inr r
          \<and> r_status r = status (last states))"
proof -
  have run: "\<exists>states det r.
          run_stages profile content = Inr (states, det)
          \<and> length states = 10
          \<and> status (hd states) = ON_BRAND
          \<and> sorted (map (status_rank \<circ> status) states)
          \<and> BrandCheckerTool_run sha256_hex utcnow profile content = Inr r
          \<and> r_status r = status (last states)"
  proof (rule run_obtain[of profile content sha256_hex utcnow])
    fix states det final label
    assume rs: "run_stages profile content = Inr (states, det)"
      and fin: "final = last states"
      and r: "BrandCheckerTool_run sha256_hex utcnow profile content =
         Inr \<lparr>r_status = status final, statusDisplay = label,
              r_explanations = explanations final, r_confidence = confidence final,
              profileVersion = version profile, checkedAt = utcnow @ ''Z'',
              contentHash = sha256_hex (encode_utf8 content), r_details = det\<rparr>"
    show ?thesis
      using run_stages_presort[OF rs] run_stages_status_sorted[OF rs] rs
      by (simp add: r fin)
  qed
  show ?thesis
    using stage_never_mono[of never_violations s] stage_tone_mono[of unacc_found s]
      stage_examples_mono[of s bad_similarity] stage_alignment_mono[of s combined] run
    by simp
qed


text \<open>
  C1. If the content contains at least one never-rule, the verdict is off-brand with
  confidence 95, and its first explanation is the critical one that quotes the first
  violated rule in the order of the profile's list: the rule before which no rule of
  the list is contained in the content.
\<close>

theorem C1_never_rule_verdict:
  assumes "\<exists>x \<in> set (never_rules profile). contains_phrase content x"
  shows "\<exists>r before rule after more.
           never_rules profile = before @ rule # after
           \<and> contains_phrase content rule
           \<and> list_all (\<lambda>x. \<not> contains_phrase content x) before
           \<and> BrandCheckerTool_run sha256_hex utcnow profile content = Inr r
           \<and> r_status r = OFF_BRAND
           \<and> r_confidence r = 95
           \<and> r_explanations r =
                \<lparr>text_of = ''Contains prohibited content: '' @ [CHR 0x22] @ rule @ [CHR 0x22],
                 aspect = Some NEVER_RULE, severity = CRITICAL\<rparr> # more"
proof -
  obtain before rule after where
    sp: "never_rules profile = before @ rule # after" "contains_phrase content rule"
      "list_all (\<lambda>x. \<not> contains_phrase content x) before"
      "filter (contains_phrase content) (never_rules profile)
         = rule # filter (contains_phrase content) after"
    using first_violation_split[OF assms] by blast
  obtain r more where
    "BrandCheckerTool_run sha256_hex utcnow profile content = Inr r"
    "r_status r = OFF_BRAND" "r_confidence r = 95"
    "r_explanations r = never_rule_explanation rule # more"
    using never_violation_verdict[OF sp(4)] by blast
  with sp(1,2,3) show ?thesis
    by (simp add: never_rule_explanation_def quoted_def) blast
qed

theorem C1_never_rule_verdict_witness:
  "(\<exists>x \<in> set (never_rules acme). contains_phrase ''Guaranteed results and ZERO  risk'' x)
   \<and> (\<exists>r more.
         BrandCheckerTool_run (\<lambda>bytes. []) ''2026-01-01T00:00:00'' acme
           ''Guaranteed results and ZERO  risk'' = Inr r
         \<and> r_status r = OFF_BRAND \<and> r_confidence r = 95
         \<and> r_explanations r =
              \<lparr>text_of = ''Contains prohibited content: '' @ [CHR 0x22] @ ''zero risk'' @ [CHR 0x22],
               aspect = Some NEVER_RULE, severity = CRITICAL\<rparr> # more)"
proof -
  let ?c = "''Guaranteed results and ZERO  risk''"
  have z: "contains_phrase ?c ''zero risk''"
    by code_simp
  have rules: "never_rules acme = [''zero risk'', ''guaranteed results'']"
    by (simp add: acme_def)
  have h: "\<exists>x \<in> set (never_rules acme). contains_phrase ?c x"
    using z by (simp add: rules)
  obtain r before rule after more where
    sp: "never_rules acme = before @ rule # after"
      "list_all (\<lambda>x. \<not> contains_phrase ?c x) before"
    and run: "BrandCheckerTool_run (\<lambda>bytes. []) ''2026-01-01T00:00:00'' acme ?c = Inr r"
      "r_status r = OFF_BRAND" "r_confidence r = 95"
      "r_explanations r =
         \<lparr>text_of = ''Contains prohibited content: '' @ [CHR 0x22] @ rule @ [CHR 0x22],
          aspect = Some NEVER_RULE, severity = CRITICAL\<rparr> # more"
    using C1_never_rule_verdict[OF h, of "\<lambda>bytes. []" "''2026-01-01T00:00:00''"] by blast
  have "rule = ''zero risk''"
  proof (cases before)
    case Nil
    with sp(1) show ?thesis by (simp add: rules)
  next
    case (Cons b bs)
    with sp(1) have "b = ''zero risk''" by (simp add: rules)
    with sp(2) Cons z show ?thesis by simp
  qed
  with run h show ?thesis by blast
qed

text \<open>
  C10. The empty phrase, and every phrase made of whitespace only, is contained in
  every content, the empty one included. A profile whose never-rules hold such a phrase
  therefore gets the verdict off-brand with confidence 95 for every content.
\<close>

theorem C10_empty_never_rule:
  "contains_phrase content []
   \<and> (list_all isspace phrase \<longrightarrow> contains_phrase content phrase)
   \<and> ((\<exists>rule \<in> set (never_rules profile). list_all isspace rule) \<longrightarrow>
        (\<exists>r. BrandCheckerTool_run sha256_hex utcnow profile content = Inr r
            \<and> r_status r = OFF_BRAND \<and> r_confidence r = 95))"
proof -
  have a: "contains_phrase content []"
    by (simp add: contains_empty)
  have b: "list_all isspace phrase \<longrightarrow> contains_phrase content phrase"
    by (simp add: contains_empty)
  have c: "\<exists>r. BrandCheckerTool_run sha256_hex utcnow profile content = Inr r
            \<and> r_status r = OFF_BRAND \<and> r_confidence r = 95"
    if "\<exists>rule \<in> set (never_rules profile). list_all isspace rule"
  proof -
    from that have "\<exists>x \<in> set (never_rules profile). contains_phrase content x"
      using contains_empty by blast
    then obtain rule after where
      "filter (contains_phrase content) (never_rules profile)
         = rule # filter (contains_phrase content) after"
      using first_violation_split[of "never_rules profile" "contains_phrase content"] by blast
    from never_violation_verdict[OF this] show ?thesis by blast
  qed
  from a b c show ?thesis by blast
qed

theorem C10_empty_never_rule_witness:
  "list_all isspace '' ''
   \<and> contains_phrase ''We are bold'' '' ''
   \<and> (\<exists>rule \<in> set (never_rules (acme\<lparr>never_rules := ['''']\<rparr>)). list_all isspace rule)
   \<and> (\<exists>r. BrandCheckerTool_run (\<lambda>bytes. []) ''2026-01-01T00:00:00''
              (acme\<lparr>never_rules := ['''']\<rparr>) '''' = Inr r
          \<and> r_status r = OFF_BRAND \<and> r_confidence r = 95)"
proof -
  have sp: "list_all isspace '' ''"
    by (simp add: isspace_def)
  have ex: "\<exists>rule \<in> set (never_rules (acme\<lparr>never_rules := ['''']\<rparr>)). list_all isspace rule"
    by simp
  show ?thesis
    using sp ex
      C10_empty_never_rule[of "''We are bold''" "'' ''" "acme\<lparr>never_rules := ['''']\<rparr>"]
      C10_empty_never_rule[of "''''" "''''" "acme\<lparr>never_rules := ['''']\<rparr>"
        "\<lambda>bytes. []" "''2026-01-01T00:00:00''"]
    by blast
qed

text \<open>
  C7 (as amended). The similarity is symmetric, lies between 0 and 1, is 0 when one of
  the two token sets is empty (so for the empty text), and is 1 for two equal texts
  whose token set is not empty.
\<close>

theorem C7_jaccard_properties:
  "calculate_word_overlap a b = calculate_word_overlap b a
   \<and> (tokenize a \<noteq> {} \<longrightarrow> calculate_word_overlap a a = Inr 1)
   \<and> calculate_word_overlap [] x = Inr 0
   \<and> (\<exists>r. calculate_word_overlap a b = Inr r \<and> 0 \<le> r \<and> r \<le> 1)
   \<and> (tokenize a = {} \<or> tokenize b = {} \<longrightarrow> calculate_word_overlap a b = Inr 0)"
  using overlap_sym[of a b] overlap_self[of a] overlap_range[of a b]
  by (simp add: overlap_cases)

theorem C7_jaccard_properties_witness:
  "tokenize ''on brand'' \<noteq> {}
   \<and> calculate_word_overlap ''on brand'' ''on brand'' = Inr 1
   \<and> tokenize ''!?'' = {}
   \<and> calculate_word_overlap ''on brand'' ''!?'' = Inr 0"
proof -
  have t1: "tokenize ''on brand'' \<noteq> {}"
    by code_simp
  have t2: "tokenize ''!?'' = {}"
    by code_simp
  show ?thesis
    using t1 t2 C7_jaccard_properties[of "''on brand''" "''on brand''"]
      C7_jaccard_properties[of "''on brand''" "''!?''"]
    by blast
qed

text \<open>
  C7 as written fails for a non-empty text without a token: the similarity of
  \<^verbatim>\<open>"!"\<close> with itself is 0.
\<close>

theorem C7_jaccard_self_counterexample:
  "''!'' \<noteq> [] \<and> calculate_word_overlap ''!'' ''!'' = Inr 0
   \<and> calculate_word_overlap ''!'' ''!'' \<noteq> Inr 1"
  by code_simp


text \<open>
  C4. The alignment stage, entered with the status on-brand: a combined score below
  0.3 gives borderline with confidence 70, a combined score from 0.3 and below 0.5
  gives borderline with confidence 75, and a combined score of at least 0.5 keeps
  on-brand with confidence 80 plus the integer part of 15 times the score, at most 95
  as the score is at most 1. Entered with another status, the stage changes neither the
  status nor the confidence. In a run the combined score is the mean of the two scores,
  lies between 0 and 1, and the verdict carries the status and the confidence that
  this stage leaves.
\<close>

theorem C4_alignment_stage:
  "(status s = ON_BRAND \<and> combined < 3/10 \<longrightarrow>
      status (stage_alignment combined s) = BORDERLINE
      \<and> confidence (stage_alignment combined s) = 70)
   \<and> (status s = ON_BRAND \<and> 3/10 \<le> combined \<and> combined < 1/2 \<longrightarrow>
      status (stage_alignment combined s) = BORDERLINE
      \<and> confidence (stage_alignment combined s) = 75)
   \<and> (status s = ON_BRAND \<and> 1/2 \<le> combined \<longrightarrow>
      status (stage_alignment combined s) = ON_BRAND
      \<and> confidence (stage_alignment combined s) = 80 + \<lfloor>combined * 15\<rfloor>)
   \<and> (status s = ON_BRAND \<and> 1/2 \<le> combined \<and> combined \<le> 1 \<longrightarrow>
      confidence (stage_alignment combined s) \<le> 95)
   \<and> (status s \<noteq> ON_BRAND \<longrightarrow>
      status (stage_alignment combined s) = status s
      \<and> confidence (stage_alignment combined s) = confidence s)
   \<and> (\<exists>states det r.
        run_stages profile content = Inr (states, det)
        \<and> BrandCheckerTool_run sha256_hex utcnow profile content = Inr r
        \<and> valueAlignmentScore det =
             of_nat (length (filter (contains_phrase content) (brand_values profile)))
               / of_nat (max (length (brand_values profile)) 1)
        \<and> voiceAlignmentScore det =
             of_nat (length (filter (contains_phrase content) (voice_descriptors profile)))
               / of_nat (max (length (voice_descriptors profile)) 1)
        \<and> states ! 4 = stage_alignment ((valueAlignmentScore det + voiceAlignmentScore det) / 2)
                          (states ! 3)
        \<and> 0 \<le> (valueAlignmentScore det + voiceAlignmentScore det) / 2
        \<and> (valueAlignmentScore det + voiceAlignmentScore det) / 2 \<le> 1
        \<and> r_status r = status (states ! 4)
        \<and> r_confidence r = confidence (states ! 4))"
proof -
  have a: "status s = ON_BRAND \<and> combined < 3/10 \<longrightarrow>
      status (stage_alignment combined s) = BORDERLINE
      \<and> confidence (stage_alignment combined s) = 70"
    by (simp add: stage_alignment_def)
  have b: "status s = ON_BRAND \<and> 3/10 \<le> combined \<and> combined < 1/2 \<longrightarrow>
      status (stage_alignment combined s) = BORDERLINE
      \<and> confidence (stage_alignment combined s) = 75"
    by (simp add: stage_alignment_def)
  have c: "status s = ON_BRAND \<and> 1/2 \<le> combined \<longrightarrow>
      status (stage_alignment combined s) = ON_BRAND
      \<and> confidence (stage_alignment combined s) = 80 + \<lfloor>combined * 15\<rfloor>"
    by (auto simp: stage_alignment_def py_int_def)
  have d: "status s = ON_BRAND \<and> 1/2 \<le> combined \<and> combined \<le> 1 \<longrightarrow>
      confidence (stage_alignment combined s) \<le> 95"
  proof (intro impI)
    assume h: "status s = ON_BRAND \<and> 1/2 \<le> combined \<and> combined \<le> 1"
    then have "\<lfloor>combined * 15\<rfloor> \<le> 15"
      by (simp add: floor_le_iff)
    with h c show "confidence (stage_alignment combined s) \<le> 95"
      by simp
  qed
  have e: "status s \<noteq> ON_BRAND \<longrightarrow>
      status (stage_alignment combined s) = status s
      \<and> confidence (stage_alignment combined s) = confidence s"
    by (simp add: stage_alignment_def)
  have f: "\<exists>states det r.
        run_stages profile content = Inr (states, det)
        \<and> BrandCheckerTool_run sha256_hex utcnow profile content = Inr r
        \<and> valueAlignmentScore det =
             of_nat (length (filter (contains_phrase content) (brand_values profile)))
               / of_nat (max (length (brand_values profile)) 1)
        \<and> voiceAlignmentScore det =
             of_nat (length (filter (contains_phrase content) (voice_descriptors profile)))
               / of_nat (max (length (voice_descriptors profile)) 1)
        \<and> states ! 4 = stage_alignment ((valueAlignmentScore det + voiceAlignmentScore det) / 2)
                          (states ! 3)
        \<and> 0 \<le> (valueAlignmentScore det + voiceAlignmentScore det) / 2
        \<and> (valueAlignmentScore det + voiceAlignmentScore det) / 2 \<le> 1
        \<and> r_status r = status (states ! 4)
        \<and> r_confidence r = confidence (states ! 4)"
  proof (rule run_obtain_final[of profile content sha256_hex utcnow])
    fix states det r
    assume rs: "run_stages profile content = Inr (states, det)"
      and r: "BrandCheckerTool_run sha256_hex utcnow profile content = Inr r"
      and st: "r_status r = status (last states)"
      and cf: "r_confidence r = confidence (last states)"
    note sh = run_stages_shape[OF rs]
    have v: "0 \<le> valueAlignmentScore det" "valueAlignmentScore det \<le> 1"
      using score_range[of "contains_phrase content" "brand_values profile"]
      by (simp_all only: sh(2))
    have w: "0 \<le> voiceAlignmentScore det" "voiceAlignmentScore det \<le> 1"
      using score_range[of "contains_phrase content" "voice_descriptors profile"]
      by (simp_all only: sh(3))
    have rng: "0 \<le> (valueAlignmentScore det + voiceAlignmentScore det) / 2
        \<and> (valueAlignmentScore det + voiceAlignmentScore det) / 2 \<le> 1"
      using v w by auto
    show ?thesis
      using rs r sh(2) sh(3) sh(5) rng st cf sh(7) sh(8) by auto
  qed
  from a b c d e f show ?thesis by blast
qed

theorem C4_alignment_stage_witness:
  "status initial_state = ON_BRAND
   \<and> (1/5 :: rat) < 3/10
   \<and> status (stage_alignment (1/5) initial_state) = BORDERLINE
   \<and> confidence (stage_alignment (1/5) initial_state) = 70
   \<and> (3/10 :: rat) \<le> 2/5 \<and> (2/5 :: rat) < 1/2
   \<and> status (stage_alignment (2/5) initial_state) = BORDERLINE
   \<and> confidence (stage_alignment (2/5) initial_state) = 75
   \<and> (1/2 :: rat) \<le> 7/8 \<and> (7/8 :: rat) \<le> 1
   \<and> status (stage_alignment (7/8) initial_state) = ON_BRAND
   \<and> confidence (stage_alignment (7/8) initial_state) = 93
   \<and> status off_brand_state \<noteq> ON_BRAND
   \<and> status (stage_alignment (1/5) off_brand_state) = OFF_BRAND
   \<and> confidence (stage_alignment (1/5) off_brand_state) = 95"
proof -
  have fl: "\<lfloor>(105 :: rat) / 8\<rfloor> = 13"
    by (rule floor_unique) simp_all
  show ?thesis
    using C4_alignment_stage[of initial_state "1/5"] C4_alignment_stage[of initial_state "2/5"]
      C4_alignment_stage[of initial_state "7/8"] C4_alignment_stage[of off_brand_state "1/5"]
    by (simp add: initial_state_def off_brand_state_def fl)
qed

text \<open>
  C3. The example stage: with a bad similarity above 0.5 the status becomes off-brand
  and the explanation "Content resembles known off-brand examples" is appended as
  critical; with a bad similarity above 0.3 and at most 0.5 the status becomes
  borderline unless it is off-brand already, and the explanation is a warning. In both
  cases the confidence becomes the larger of the confidence and 80, and the explanation
  is appended when fewer than three are present. At most 0.3, the stage changes
  nothing. In a run the bad similarity is the maximum similarity between the content
  and the examples of type bad (0 without one), the stage is entered with fewer than
  three explanations, its explanations are all in the verdict, and its status and
  confidence are those of the verdict unless the status is still on-brand.
\<close>

theorem C3_example_stage:
  "(1/2 < bad \<longrightarrow>
      status (stage_examples bad s) = OFF_BRAND
      \<and> confidence (stage_examples bad s) = max (confidence s) 80
      \<and> explanations (stage_examples bad s) =
          (if length (explanations s) < 3
           then explanations s @ [\<lparr>text_of = ''Content resembles known off-brand examples'',
                                   aspect = Some EXAMPLE_MATCH, severity = CRITICAL\<rparr>]
           else explanations s))
   \<and> (3/10 < bad \<and> bad \<le> 1/2 \<longrightarrow>
      status (stage_examples bad s) = (if status s = OFF_BRAND then OFF_BRAND else BORDERLINE)
      \<and> confidence (stage_examples bad s) = max (confidence s) 80
      \<and> explanations (stage_examples bad s) =
          (if length (explanations s) < 3
           then explanations s @ [\<lparr>text_of = ''Content resembles known off-brand examples'',
                                   aspect = Some EXAMPLE_MATCH, severity = WARNING\<rparr>]
           else explanations s))
   \<and> (bad \<le> 3/10 \<longrightarrow> stage_examples bad s = s)
   \<and> (\<exists>states det r.
        run_stages profile content = Inr (states, det)
        \<and> BrandCheckerTool_run sha256_hex utcnow profile content = Inr r
        \<and> exampleSimilarity_bad det = spec_bad_similarity content (examples profile)
        \<and> states ! 3 = stage_examples (exampleSimilarity_bad det) (states ! 2)
        \<and> length (explanations (states ! 2)) < 3
        \<and> set (explanations (states ! 3)) \<subseteq> set (r_explanations r)
        \<and> r_status r = (if status (states ! 3) = ON_BRAND then status (states ! 4)
                         else status (states ! 3))
        \<and> r_confidence r = (if status (states ! 3) = ON_BRAND then confidence (states ! 4)
                             else confidence (states ! 3)))"
proof -
  have a: "1/2 < bad \<longrightarrow>
      status (stage_examples bad s) = OFF_BRAND
      \<and> confidence (stage_examples bad s) = max (confidence s) 80
      \<and> explanations (stage_examples bad s) =
          (if length (explanations s) < 3
           then explanations s @ [\<lparr>text_of = ''Content resembles known off-brand examples'',
                                   aspect = Some EXAMPLE_MATCH, severity = CRITICAL\<rparr>]
           else explanations s)"
    by (simp add: stage_examples_def Let_def append_explanation_def resembles_explanation_def)
  have b: "3/10 < bad \<and> bad \<le> 1/2 \<longrightarrow>
      status (stage_examples bad s) = (if status s = OFF_BRAND then OFF_BRAND else BORDERLINE)
      \<and> confidence (stage_examples bad s) = max (confidence s) 80
      \<and> explanations (stage_examples bad s) =
          (if length (explanations s) < 3
           then explanations s @ [\<lparr>text_of = ''Content resembles known off-brand examples'',
                                   aspect = Some EXAMPLE_MATCH, severity = WARNING\<rparr>]
           else explanations s)"
    by (simp add: stage_examples_def Let_def append_explanation_def resembles_explanation_def)
  have c: "bad \<le> 3/10 \<longrightarrow> stage_examples bad s = s"
    by (simp add: stage_examples_def)
  have d: "\<exists>states det r.
        run_stages profile content = Inr (states, det)
        \<and> BrandCheckerTool_run sha256_hex utcnow profile content = Inr r
        \<and> exampleSimilarity_bad det = spec_bad_similarity content (examples profile)
        \<and> states ! 3 = stage_examples (exampleSimilarity_bad det) (states ! 2)
        \<and> length (explanations (states ! 2)) < 3
        \<and> set (explanations (states ! 3)) \<subseteq> set (r_explanations r)
        \<and> r_status r = (if status (states ! 3) = ON_BRAND then status (states ! 4)
                         else status (states ! 3))
        \<and> r_confidence r = (if status (states ! 3) = ON_BRAND then confidence (states ! 4)
                             else confidence (states ! 3))"
  proof (rule run_obtain_final[of profile content sha256_hex utcnow])
    fix states det r
    assume rs: "run_stages profile content = Inr (states, det)"
      and r: "BrandCheckerTool_run sha256_hex utcnow profile content = Inr r"
      and st: "r_status r = status (last states)"
      and cf: "r_confidence r = confidence (last states)"
      and ex: "r_explanations r = explanations (last states)"
    note sh = run_stages_shape[OF rs]
    have len: "length (explanations (states ! 2)) < 3"
      using sh(6) by simp
    have kept: "set (explanations (states ! 3)) \<subseteq> set (r_explanations r)"
      unfolding ex by (rule run_stages_kept[OF rs])
    have same: "status (states ! 3) \<noteq> ON_BRAND \<Longrightarrow> states ! 4 = states ! 3"
      unfolding sh(5) by (rule stage_alignment_escalated)
    have s: "r_status r = (if status (states ! 3) = ON_BRAND then status (states ! 4)
                         else status (states ! 3))"
      using same by (simp add: st sh(7))
    have cc: "r_confidence r = (if status (states ! 3) = ON_BRAND then confidence (states ! 4)
                             else confidence (states ! 3))"
      using same by (simp add: cf sh(8))
    show ?thesis
      using rs r sh(1) sh(4) len kept s cc by blast
  qed
  from a b c d show ?thesis by blast
qed

theorem C3_example_stage_witness:
  "((1/2 :: rat) < 1
    \<and> status (stage_examples 1 initial_state) = OFF_BRAND
    \<and> confidence (stage_examples 1 initial_state) = 85
    \<and> explanations (stage_examples 1 initial_state) =
         [\<lparr>text_of = ''Content resembles known off-brand examples'',
           aspect = Some EXAMPLE_MATCH, severity = CRITICAL\<rparr>]
    \<and> (3/10 :: rat) < 2/5 \<and> (2/5 :: rat) \<le> 1/2
    \<and> status (stage_examples (2/5) initial_state) = BORDERLINE
    \<and> status (stage_examples (2/5) off_brand_state) = OFF_BRAND
    \<and> confidence (stage_examples (2/5) off_brand_state) = 95
    \<and> explanations (stage_examples (2/5) initial_state) =
         [\<lparr>text_of = ''Content resembles known off-brand examples'',
           aspect = Some EXAMPLE_MATCH, severity = WARNING\<rparr>]
    \<and> (1/5 :: rat) \<le> 3/10
    \<and> stage_examples (1/5) initial_state = initial_state)
   \<and> (\<exists>r. BrandCheckerTool_run (\<lambda>bytes. []) ''2026-01-01T00:00:00'' acme
              ''Buy now: cheap stuff'' = Inr r
          \<and> r_status r = OFF_BRAND
          \<and> \<lparr>text_of = ''Content resembles known off-brand examples'',
              aspect = Some EXAMPLE_MATCH, severity = CRITICAL\<rparr> \<in> set (r_explanations r))"
proof -
  let ?c = "''Buy now: cheap stuff''"
  have stage: "(1/2 :: rat) < 1
    \<and> status (stage_examples 1 initial_state) = OFF_BRAND
    \<and> confidence (stage_examples 1 initial_state) = 85
    \<and> explanations (stage_examples 1 initial_state) =
         [\<lparr>text_of = ''Content resembles known off-brand examples'',
           aspect = Some EXAMPLE_MATCH, severity = CRITICAL\<rparr>]
    \<and> (3/10 :: rat) < 2/5 \<and> (2/5 :: rat) \<le> 1/2
    \<and> status (stage_examples (2/5) initial_state) = BORDERLINE
    \<and> status (stage_examples (2/5) off_brand_state) = OFF_BRAND
    \<and> confidence (stage_examples (2/5) off_brand_state) = 95
    \<and> explanations (stage_examples (2/5) initial_state) =
         [\<lparr>text_of = ''Content resembles known off-brand examples'',
           aspect = Some EXAMPLE_MATCH, severity = WARNING\<rparr>]
    \<and> (1/5 :: rat) \<le> 3/10
    \<and> stage_examples (1/5) initial_state = initial_state"
    using C3_example_stage[of 1 initial_state] C3_example_stage[of "2/5" initial_state]
      C3_example_stage[of "2/5" off_brand_state] C3_example_stage[of "1/5" initial_state]
    by (simp add: initial_state_def off_brand_state_def)
  obtain states :: "eval_state list" and det :: details and r :: BrandCheckResponse where
    r: "BrandCheckerTool_run (\<lambda>bytes. []) ''2026-01-01T00:00:00'' acme ?c = Inr r"
    and b: "exampleSimilarity_bad det = spec_bad_similarity ?c (examples acme)"
    and s3: "states ! 3 = stage_examples (exampleSimilarity_bad det) (states ! 2)"
    and len: "length (explanations (states ! 2)) < 3"
    and kept: "set (explanations (states ! 3)) \<subseteq> set (r_explanations r)"
    and st: "r_status r = (if status (states ! 3) = ON_BRAND then status (states ! 4)
                         else status (states ! 3))"
    using C3_example_stage[of 1 initial_state acme ?c "\<lambda>bytes. []" "''2026-01-01T00:00:00''",
        THEN conjunct2, THEN conjunct2, THEN conjunct2]
    by blast
  have s3': "states ! 3 = stage_examples 1 (states ! 2)"
    using s3 b by (simp add: acme_bad_similarity)
  have "status (states ! 3) = OFF_BRAND
     \<and> explanations (states ! 3) = explanations (states ! 2) @
          [\<lparr>text_of = ''Content resembles known off-brand examples'',
            aspect = Some EXAMPLE_MATCH, severity = CRITICAL\<rparr>]"
    using C3_example_stage[of 1 "states ! 2"] len by (simp add: s3')
  then have run: "\<exists>r. BrandCheckerTool_run (\<lambda>bytes. []) ''2026-01-01T00:00:00'' acme ?c = Inr r
          \<and> r_status r = OFF_BRAND
          \<and> \<lparr>text_of = ''Content resembles known off-brand examples'',
              aspect = Some EXAMPLE_MATCH, severity = CRITICAL\<rparr> \<in> set (r_explanations r)"
    using r kept st by auto
  from stage run show ?thesis by (rule conjI)
qed

end
